theory Spec2Isabelle
  imports Main
begin

section \<open>The lexgo engine and its example grammar\<close>

text \<open>
  A shallow embedding of package \<open>lexgo\<close> (the \<open>Lexer\<close> struct and its methods) and of the
  Lisp example grammar that drives it. A rune is a Go \<open>int32\<close> code point, modelled as an
  \<open>int\<close>; the only operations the code performs on runes are comparisons. The counters
  \<open>row\<close>, \<open>col\<close>, \<open>absRow\<close>, \<open>absCol\<close> are Go \<open>int\<close>s, modelled as \<open>int\<close>: they start at
  \<open>-1\<close>, \<open>-1\<close>, \<open>1\<close>, \<open>0\<close> and change by at most one per rune read
  (lemma \<open>perform_counters_bounded\<close> below), so a machine word does not wrap on any input
  shorter than its range.
\<close>

subsection \<open>Errors, tokens, faults\<close>

text \<open>
  The \<open>error\<close> values the engine handles: \<open>io.EOF\<close>, the package's own
  \<open>errInvalidUTF8\<close>, \<open>bufio.ErrInvalidUnreadRune\<close>, and any other failure of the
  underlying reader, identified by its message.
\<close>

datatype error = EOF | errInvalidUTF8 | ErrInvalidUnreadRune | IOError string

type_synonym rune = int

type_synonym TokenType = int

definition Err :: TokenType where
  "Err = 0"

definition UserDefined :: TokenType where
  "UserDefined = 1"

text \<open>
  Struct \<open>Token\<close>. The field \<open>Err\<close> of the source is called \<open>TokErr\<close>, since \<open>Err\<close> is
  also the name of the token type; \<open>None\<close> is Go's \<open>nil\<close>. \<open>Val\<close> is the string as the
  sequence of code points it encodes.
\<close>

record Token =
  TokenType :: TokenType
  Val :: "rune list"
  Row :: int
  Col :: int
  TokErr :: "error option"

text \<open>
  What stops a call from returning: a call of a nil function value panics, and a send on
  the full channel \<open>ch\<close> never completes, since the only receive is in \<open>Next\<close>, on the
  same goroutine.
\<close>

datatype fault = NilFuncCall | Blocked

subsection \<open>The buffered reader\<close>

text \<open>
  \<open>bufio.Reader\<close> is Go's standard library. The model keeps what the engine observes of
  it: \<open>pending\<close> lists what the coming calls of \<open>ReadRune\<close> return, either a rune with its
  size in bytes or an error of the underlying reader, and once the list is used up every
  call returns \<open>io.EOF\<close>; \<open>lastRune\<close> is the rune \<open>UnreadRune\<close> can push back
  (\<open>None\<close> stands for \<open>lastRuneSize = -1\<close>). A malformed UTF-8 unit is read as
  \<open>Rune ReplacementChar 1\<close>, as \<open>utf8.DecodeRune\<close> reports it.
\<close>

datatype chunk = Rune rune nat | Failure error

record Reader =
  pending :: "chunk list"
  lastRune :: "(rune \<times> nat) option"

definition bufio_ReadRune :: "Reader \<Rightarrow> (rune \<times> nat \<times> error option) \<times> Reader" where
  "bufio_ReadRune b =
     (case pending b of
        [] \<Rightarrow> ((0, 0, Some EOF), b\<lparr>lastRune := None\<rparr>)
      | Failure e # rest \<Rightarrow> ((0, 0, Some e), b\<lparr>pending := rest, lastRune := None\<rparr>)
      | Rune c n # rest \<Rightarrow> ((c, n, None), b\<lparr>pending := rest, lastRune := Some (c, n)\<rparr>))"

definition bufio_UnreadRune :: "Reader \<Rightarrow> error option \<times> Reader" where
  "bufio_UnreadRune b =
     (case lastRune b of
        None \<Rightarrow> (Some ErrInvalidUnreadRune, b)
      | Some (c, n) \<Rightarrow> (None, b\<lparr>pending := Rune c n # pending b, lastRune := None\<rparr>))"

definition ReplacementChar :: rune where
  "ReplacementChar = 0xFFFD"

definition MaxRune :: rune where
  "MaxRune = 0x10FFFF"

text \<open>
  \<open>bytes.Buffer.WriteRune\<close>: a rune that is not a Unicode scalar value (negative, a
  surrogate, or above \<open>MaxRune\<close>) is written as the encoding of \<open>ReplacementChar\<close>.
\<close>

definition ValidRune :: "rune \<Rightarrow> bool" where
  "ValidRune c \<longleftrightarrow> (0 \<le> c \<and> c < 0xD800) \<or> (0xDFFF < c \<and> c \<le> MaxRune)"

definition WriteRune :: "rune list \<Rightarrow> rune \<Rightarrow> rune list" where
  "WriteRune buf c = buf @ [if ValidRune c then c else ReplacementChar]"

subsection \<open>The Lexer\<close>

text \<open>
  Struct \<open>Lexer\<close>. The field \<open>r\<close> of the source is called \<open>rdr\<close>. A \<open>LexerFunc\<close> is a
  function from the lexer to the next \<open>LexerFunc\<close>; the model names the state functions
  of a grammar by the values of a type \<open>'f\<close>, \<open>state\<close> holds the name (\<open>None\<close> is
  \<open>nil\<close>), and the grammar gives the function of each name. \<open>ch\<close> is the channel of
  capacity 1, oldest token first.
\<close>

record 'f Lexer =
  rdr :: Reader
  outbuf :: "rune list"
  ch :: "Token list"
  state :: "'f option"
  row :: int
  col :: int
  absRow :: int
  absCol :: int

type_synonym 'f LexerFunc = "'f \<Rightarrow> 'f Lexer \<Rightarrow> fault + ('f option \<times> 'f Lexer)"

definition NewLexer :: "Reader \<Rightarrow> 'f \<Rightarrow> 'f Lexer" where
  "NewLexer br firstFunc =
     \<lparr>rdr = br, outbuf = [], ch = [], state = Some firstFunc,
      row = -1, col = -1, absRow = 1, absCol = 0\<rparr>"

text \<open>The send \<open>l.ch <- t\<close> on the channel made by \<open>make(chan *Token, 1)\<close>.\<close>

definition send :: "Token \<Rightarrow> 'f Lexer \<Rightarrow> fault + 'f Lexer" where
  "send t l = (if length (ch l) < 1 then Inr (l\<lparr>ch := ch l @ [t]\<rparr>) else Inl Blocked)"

definition Emit :: "TokenType \<Rightarrow> 'f Lexer \<Rightarrow> fault + 'f Lexer" where
  "Emit t l =
     (let str = outbuf l in
      case send \<lparr>TokenType = t, Val = str, Row = row l, Col = col l, TokErr = None\<rparr> l of
        Inl flt \<Rightarrow> Inl flt
      | Inr l1 \<Rightarrow> Inr (l1\<lparr>outbuf := [], row := -1, col := -1\<rparr>))"

definition EmitErr :: "error \<Rightarrow> 'f Lexer \<Rightarrow> fault + 'f Lexer" where
  "EmitErr err l =
     send \<lparr>TokenType = Err, Val = [], Row = 0, Col = 0, TokErr = Some err\<rparr> l"

definition readRune :: "'f Lexer \<Rightarrow> fault + ((rune \<times> error option) \<times> 'f Lexer)" where
  "readRune l =
     (case bufio_ReadRune (rdr l) of
        ((c, i, err), b) \<Rightarrow>
          (let l1 = l\<lparr>rdr := b\<rparr> in
           case err of
             Some e \<Rightarrow>
               (case EmitErr e l1 of
                  Inl flt \<Rightarrow> Inl flt
                | Inr l2 \<Rightarrow> Inr ((0, Some e), l2))
           | None \<Rightarrow>
               if c = ReplacementChar \<and> i = 1 then
                 (case EmitErr errInvalidUTF8 l1 of
                    Inl flt \<Rightarrow> Inl flt
                  | Inr l2 \<Rightarrow> Inr ((0, Some errInvalidUTF8), l2))
               else Inr ((c, None), l1)))"

definition ReadRune :: "'f Lexer \<Rightarrow> fault + ((rune \<times> error option) \<times> 'f Lexer)" where
  "ReadRune l =
     (case readRune l of
        Inl flt \<Rightarrow> Inl flt
      | Inr ((c, err), l1) \<Rightarrow>
          (case err of
             Some e \<Rightarrow> Inr ((0, Some e), l1)
           | None \<Rightarrow>
               if c = 10 then Inr ((c, None), l1\<lparr>absRow := absRow l1 + 1, absCol := 0\<rparr>)
               else Inr ((c, None), l1\<lparr>absCol := absCol l1 + 1\<rparr>)))"

definition PeekRune :: "'f Lexer \<Rightarrow> fault + ((rune \<times> error option) \<times> 'f Lexer)" where
  "PeekRune l =
     (case readRune l of
        Inl flt \<Rightarrow> Inl flt
      | Inr ((c, err), l1) \<Rightarrow>
          (case err of
             Some e \<Rightarrow> Inr ((0, Some e), l1)
           | None \<Rightarrow>
               (case bufio_UnreadRune (rdr l1) of
                  (uerr, b) \<Rightarrow>
                    (let l2 = l1\<lparr>rdr := b\<rparr> in
                     case uerr of
                       Some e \<Rightarrow>
                         (case EmitErr e l2 of
                            Inl flt \<Rightarrow> Inl flt
                          | Inr l3 \<Rightarrow> Inr ((0, Some e), l3))
                     | None \<Rightarrow> Inr ((c, None), l2)))))"

definition BufferRune :: "rune \<Rightarrow> 'f Lexer \<Rightarrow> 'f Lexer" where
  "BufferRune c l =
     (let l1 = l\<lparr>outbuf := WriteRune (outbuf l) c\<rparr> in
      if row l1 < 0 \<and> col l1 < 0 then l1\<lparr>row := absRow l1, col := absCol l1\<rparr> else l1)"

text \<open>
  \<open>Next\<close>: the \<open>select\<close> receives the oldest token of the channel when there is one; in the
  \<open>default\<close> branch a nil \<open>state\<close> sends the EOF token, and then \<open>l.state(l)\<close> is called
  whatever \<open>state\<close> is. The loop has no bound of its own, so \<open>Next\<close> is a partial function:
  \<open>None\<close> is a loop that never ends, \<open>Some (Inl flt)\<close> a call that does not return
  because of \<open>flt\<close>, \<open>Some (Inr (t, l'))\<close> the token returned and the lexer left behind.
\<close>

partial_function (option) Next ::
  "'f LexerFunc \<Rightarrow> 'f Lexer \<Rightarrow> (fault + (Token \<times> 'f Lexer)) option" where
  "Next run l =
     (case ch l of
        t # rest \<Rightarrow> Some (Inr (t, l\<lparr>ch := rest\<rparr>))
      | [] \<Rightarrow>
          (case (if state l = None then EmitErr EOF l else Inr l) of
             Inl flt \<Rightarrow> Some (Inl flt)
           | Inr l1 \<Rightarrow>
               (case state l1 of
                  None \<Rightarrow> Some (Inl NilFuncCall)
                | Some f \<Rightarrow>
                    (case run f l1 of
                       Inl flt \<Rightarrow> Some (Inl flt)
                     | Inr (next, l2) \<Rightarrow> Next run (l2\<lparr>state := next\<rparr>)))))"

subsection \<open>The example grammar\<close>

text \<open>
  Package \<open>unicode\<close> is Go's standard library. \<open>IsSpace\<close> is the property White_Space,
  written out. \<open>IsLetter\<close> and \<open>IsNumber\<close> are written out for Latin-1 (the range for
  which Go reads its \<open>properties\<close> array); above it they are whatever the Unicode range
  tables say, here the parameters \<open>L\<close> and \<open>N\<close>.
\<close>

definition MaxLatin1 :: rune where
  "MaxLatin1 = 0xFF"

definition IsSpace :: "rune \<Rightarrow> bool" where
  "IsSpace c \<longleftrightarrow>
     (if 0 \<le> c \<and> c \<le> MaxLatin1
      then c = 9 \<or> c = 10 \<or> c = 11 \<or> c = 12 \<or> c = 13 \<or> c = 32 \<or> c = 0x85 \<or> c = 0xA0
      else c = 0x1680 \<or> (0x2000 \<le> c \<and> c \<le> 0x200A) \<or> c = 0x2028 \<or> c = 0x2029
           \<or> c = 0x202F \<or> c = 0x205F \<or> c = 0x3000)"

definition IsLetter :: "(rune \<Rightarrow> bool) \<Rightarrow> rune \<Rightarrow> bool" where
  "IsLetter L c \<longleftrightarrow>
     (if 0 \<le> c \<and> c \<le> MaxLatin1
      then (0x41 \<le> c \<and> c \<le> 0x5A) \<or> (0x61 \<le> c \<and> c \<le> 0x7A) \<or> c = 0xAA \<or> c = 0xB5
           \<or> c = 0xBA \<or> (0xC0 \<le> c \<and> c \<le> 0xD6) \<or> (0xD8 \<le> c \<and> c \<le> 0xF6)
           \<or> (0xF8 \<le> c \<and> c \<le> 0xFF)
      else L c)"

definition IsNumber :: "(rune \<Rightarrow> bool) \<Rightarrow> rune \<Rightarrow> bool" where
  "IsNumber N c \<longleftrightarrow>
     (if 0 \<le> c \<and> c \<le> MaxLatin1
      then (0x30 \<le> c \<and> c \<le> 0x39) \<or> c = 0xB2 \<or> c = 0xB3 \<or> c = 0xB9
           \<or> (0xBC \<le> c \<and> c \<le> 0xBE)
      else N c)"

definition OpenParen :: TokenType where
  "OpenParen = UserDefined + 0"

definition CloseParen :: TokenType where
  "CloseParen = UserDefined + 1"

definition AlphaNum :: TokenType where
  "AlphaNum = UserDefined + 2"

text \<open>The names of the three state functions of the grammar.\<close>

datatype LispFunc = LexWhitespace | LexComment | LexAlphaNum

definition lexWhitespace :: "LispFunc Lexer \<Rightarrow> fault + (LispFunc option \<times> LispFunc Lexer)" where
  "lexWhitespace lexer =
     (case ReadRune lexer of
        Inl flt \<Rightarrow> Inl flt
      | Inr ((c, err), l1) \<Rightarrow>
          if err \<noteq> None then Inr (None, l1)
          else if IsSpace c then Inr (Some LexWhitespace, l1)
          else if c = 35 then Inr (Some LexComment, l1)
          else
            (let l2 = BufferRune c l1 in
             if c = 40 then
               (case Emit OpenParen l2 of
                  Inl flt \<Rightarrow> Inl flt
                | Inr l3 \<Rightarrow> Inr (Some LexWhitespace, l3))
             else if c = 41 then
               (case Emit CloseParen l2 of
                  Inl flt \<Rightarrow> Inl flt
                | Inr l3 \<Rightarrow> Inr (Some LexWhitespace, l3))
             else Inr (Some LexAlphaNum, l2)))"

definition lexComment :: "LispFunc Lexer \<Rightarrow> fault + (LispFunc option \<times> LispFunc Lexer)" where
  "lexComment lexer =
     (case ReadRune lexer of
        Inl flt \<Rightarrow> Inl flt
      | Inr ((c, err), l1) \<Rightarrow>
          if err \<noteq> None then Inr (None, l1)
          else if c = 10 then Inr (Some LexWhitespace, l1)
          else Inr (Some LexComment, l1))"

definition lexAlphaNum ::
  "(rune \<Rightarrow> bool) \<Rightarrow> (rune \<Rightarrow> bool) \<Rightarrow> LispFunc Lexer \<Rightarrow>
   fault + (LispFunc option \<times> LispFunc Lexer)" where
  "lexAlphaNum L N lexer =
     (case PeekRune lexer of
        Inl flt \<Rightarrow> Inl flt
      | Inr ((c, err), l1) \<Rightarrow>
          if err \<noteq> None then Inr (None, l1)
          else if \<not> IsLetter L c \<and> \<not> IsNumber N c then
            (case Emit AlphaNum l1 of
               Inl flt \<Rightarrow> Inl flt
             | Inr l2 \<Rightarrow> Inr (Some LexWhitespace, l2))
          else
            (case ReadRune l1 of
               Inl flt \<Rightarrow> Inl flt
             | Inr (_, l2) \<Rightarrow> Inr (Some LexAlphaNum, BufferRune c l2)))"

text \<open>The function each name stands for.\<close>

fun lispFunc :: "(rune \<Rightarrow> bool) \<Rightarrow> (rune \<Rightarrow> bool) \<Rightarrow> LispFunc LexerFunc" where
  "lispFunc L N LexWhitespace = lexWhitespace"
| "lispFunc L N LexComment = lexComment"
| "lispFunc L N LexAlphaNum = lexAlphaNum L N"

text \<open>
  \<open>NewLispLexer\<close> on a reader over the UTF-8 text of an ASCII string: one rune of size 1
  for each character.
\<close>

definition ascii :: "string \<Rightarrow> rune list" where
  "ascii s = map of_char s"

definition stringReader :: "string \<Rightarrow> Reader" where
  "stringReader s = \<lparr>pending = map (\<lambda>c. Rune c 1) (ascii s), lastRune = None\<rparr>"

definition NewLispLexer :: "Reader \<Rightarrow> LispFunc Lexer" where
  "NewLispLexer br = NewLexer br LexWhitespace"

subsection \<open>Sequences of calls\<close>

text \<open>
  \<open>NextN run k l\<close> is what a caller sees who calls \<open>Next\<close> \<open>k\<close> times, as the loop of
  \<open>main\<close> does: the tokens returned, and then either the lexer or the fault that stopped
  the last call.
\<close>

fun NextN ::
  "'f LexerFunc \<Rightarrow> nat \<Rightarrow> 'f Lexer \<Rightarrow> (Token list \<times> (fault + 'f Lexer)) option" where
  "NextN run 0 l = Some ([], Inr l)"
| "NextN run (Suc k) l =
     (case Next run l of
        None \<Rightarrow> None
      | Some (Inl flt) \<Rightarrow> Some ([], Inl flt)
      | Some (Inr (t, l1)) \<Rightarrow>
          (case NextN run k l1 of
             None \<Rightarrow> None
           | Some (ts, res) \<Rightarrow> Some (t # ts, res)))"

text \<open>
  \<open>invoke run n l\<close> is \<open>n\<close> passes through the \<open>default\<close> branch of the loop of \<open>Next\<close>
  with a state function to call: each pass finds the channel empty, calls the current
  state function and stores what it returns in \<open>state\<close>.
\<close>

fun invoke :: "'f LexerFunc \<Rightarrow> nat \<Rightarrow> 'f Lexer \<Rightarrow> 'f Lexer option" where
  "invoke run 0 l = Some l"
| "invoke run (Suc n) l =
     (case ch l of
        t # rest \<Rightarrow> None
      | [] \<Rightarrow>
          (case state l of
             None \<Rightarrow> None
           | Some f \<Rightarrow>
               (case run f l of
                  Inl flt \<Rightarrow> None
                | Inr (next, l1) \<Rightarrow> invoke run n (l1\<lparr>state := next\<rparr>))))"

text \<open>
  The fields of \<open>Lexer\<close> are unexported: a state function, which lives in another package,
  changes the lexer only through the exported methods, and \<open>Next\<close> itself only receives
  from the channel. A \<open>call\<close> is one of these uses, and \<open>perform\<close> runs a sequence of
  them, stopping at the first that does not return.
\<close>

datatype call =
  CallReadRune | CallPeekRune | CallBufferRune rune | CallEmit TokenType
  | CallEmitErr error | Receive

fun perform1 :: "call \<Rightarrow> 'f Lexer \<Rightarrow> fault + 'f Lexer" where
  "perform1 CallReadRune l = (case ReadRune l of Inl flt \<Rightarrow> Inl flt | Inr (_, l1) \<Rightarrow> Inr l1)"
| "perform1 CallPeekRune l = (case PeekRune l of Inl flt \<Rightarrow> Inl flt | Inr (_, l1) \<Rightarrow> Inr l1)"
| "perform1 (CallBufferRune c) l = Inr (BufferRune c l)"
| "perform1 (CallEmit t) l = Emit t l"
| "perform1 (CallEmitErr err) l = EmitErr err l"
| "perform1 Receive l = (case ch l of [] \<Rightarrow> Inr l | t # rest \<Rightarrow> Inr (l\<lparr>ch := rest\<rparr>))"

fun perform :: "call list \<Rightarrow> 'f Lexer \<Rightarrow> fault + 'f Lexer" where
  "perform [] l = Inr l"
| "perform (a # as) l =
     (case perform1 a l of Inl flt \<Rightarrow> Inl flt | Inr l1 \<Rightarrow> perform as l1)"


text \<open>The token \<open>EmitErr\<close> sends.\<close>

definition errToken :: "error \<Rightarrow> Token" where
  "errToken err = \<lparr>TokenType = Err, Val = [], Row = 0, Col = 0, TokErr = Some err\<rparr>"

text \<open>
  The absolute position \<open>(absRow, absCol)\<close> of \<open>l'\<close> is at or after that of \<open>l\<close>: a later
  row, or the same row and a column that is not smaller.
\<close>

definition advanced :: "'f Lexer \<Rightarrow> 'f Lexer \<Rightarrow> bool" where
  "advanced l l' \<longleftrightarrow> absRow l < absRow l' \<or> (absRow l = absRow l' \<and> absCol l \<le> absCol l')"

text \<open>Range tables with no letter and no number above Latin-1, for the examples.\<close>

definition noTable :: "rune \<Rightarrow> bool" where
  "noTable c \<longleftrightarrow> False"

section \<open>Properties\<close>

subsection \<open>Unfolding and evaluation\<close>

lemmas engine_defs = ReadRune_def PeekRune_def readRune_def bufio_ReadRune_def
  bufio_UnreadRune_def EmitErr_def Emit_def send_def BufferRune_def Let_def

lemmas engine_splits = list.splits chunk.splits if_splits sum.splits option.splits prod.splits

lemmas grammar_defs = NewLispLexer_def NewLexer_def stringReader_def ascii_def
  lexWhitespace_def lexComment_def lexAlphaNum_def WriteRune_def ValidRune_def
  IsSpace_def IsLetter_def IsNumber_def MaxLatin1_def MaxRune_def ReplacementChar_def
  OpenParen_def CloseParen_def AlphaNum_def UserDefined_def Err_def errToken_def noTable_def

subsection \<open>The driver\<close>

lemma Next_queued: "ch l = t # rest \<Longrightarrow> Next run l = Some (Inr (t, l\<lparr>ch := rest\<rparr>))"
  by (subst Next.simps) simp

lemma Next_invoke1:
  "ch l = [] \<Longrightarrow> state l = Some f \<Longrightarrow> run f l = Inr (nxt, l1) \<Longrightarrow>
     Next run l = Next run (l1\<lparr>state := nxt\<rparr>)"
  by (subst Next.simps) simp

lemma Next_invoke: "invoke run n l = Some l' \<Longrightarrow> Next run l = Next run l'"
proof (induction n arbitrary: l)
  case 0
  then show ?case by simp
next
  case (Suc n)
  from Suc.prems obtain f nxt l1 where
    c: "ch l = []" and s: "state l = Some f" and r: "run f l = Inr (nxt, l1)"
    and i: "invoke run n (l1\<lparr>state := nxt\<rparr>) = Some l'"
    by (auto split: list.splits option.splits sum.splits)
  have "Next run l = Next run (l1\<lparr>state := nxt\<rparr>)"
    using c s r by (rule Next_invoke1)
  with Suc.IH [OF i] show ?case by simp
qed

text \<open>
  With no token queued and a nil \<open>state\<close>, \<open>Next\<close> sends the EOF token and then calls the
  nil function: the call panics, whatever the grammar.
\<close>

lemma Next_nil_state:
  "ch l = [] \<Longrightarrow> state l = None \<Longrightarrow> Next run l = Some (Inl NilFuncCall)"
  by (subst Next.simps) (simp add: EmitErr_def send_def)

text \<open>
  C1. Once the state function is nil, every later call of \<open>Next\<close> should return an EOF
  error token. The code does so only for a token still queued: on the empty input the
  first call returns the EOF token that \<open>readRune\<close> sent and leaves \<open>state\<close> nil, and the
  second call does not return a token, it panics on the call of the nil \<open>state\<close>.
\<close>

theorem Next_after_halt_panics:
  "NextN (lispFunc noTable noTable) 2 (NewLispLexer (stringReader [])) =
     Some ([errToken EOF], Inl NilFuncCall)"
  by (simp add: Next.simps engine_defs grammar_defs eval_nat_numeral)

text \<open>
  C2. \<open>Next\<close> should never panic and should always return a token. On the input
  \<open>(a b)\<close> the first five calls return the four tokens and the EOF token; the sixth
  call panics.
\<close>

theorem Next_sixth_call_panics:
  "NextN (lispFunc noTable noTable) 6 (NewLispLexer (stringReader ''(a b)'')) =
     Some ([\<lparr>TokenType = OpenParen, Val = ascii ''('', Row = 1, Col = 1, TokErr = None\<rparr>,
            \<lparr>TokenType = AlphaNum, Val = ascii ''a'', Row = 1, Col = 2, TokErr = None\<rparr>,
            \<lparr>TokenType = AlphaNum, Val = ascii ''b'', Row = 1, Col = 4, TokErr = None\<rparr>,
            \<lparr>TokenType = CloseParen, Val = ascii '')'', Row = 1, Col = 5, TokErr = None\<rparr>,
            errToken EOF],
           Inl NilFuncCall)"
  by (simp add: Next.simps engine_defs grammar_defs eval_nat_numeral)

text \<open>
  C3. \<open>Next\<close> first looks at the channel: a queued token is returned at once, and no
  state function is called (the result does not depend on \<open>run\<close>). With the channel
  empty and a state function \<open>f\<close> to call, \<open>f\<close> is called once, what it returns becomes
  \<open>state\<close>, and the loop goes on from there; so after any number \<open>n\<close> of such passes,
  the first token found in the channel is the one returned.
\<close>

theorem Next_loop:
  "(ch l = t # rest \<longrightarrow> Next run l = Some (Inr (t, l\<lparr>ch := rest\<rparr>)))
   \<and> (ch l = [] \<and> state l = Some f \<and> run f l = Inr (nxt, l1) \<longrightarrow>
        Next run l = Next run (l1\<lparr>state := nxt\<rparr>))
   \<and> (invoke run n l = Some l' \<and> ch l' = t' # rest' \<longrightarrow>
        Next run l = Some (Inr (t', l'\<lparr>ch := rest'\<rparr>)))"
  using Next_queued [of l t rest run] Next_invoke1 [of l f run nxt l1]
    Next_invoke [of run n l l'] Next_queued [of l' t' rest' run]
  by simp

theorem Next_loop_witness:
  "Next (lispFunc noTable noTable) ((NewLispLexer (stringReader ''a''))\<lparr>ch := [errToken EOF]\<rparr>)
     = Some (Inr (errToken EOF, NewLispLexer (stringReader ''a'')))
   \<and> Next (lispFunc noTable noTable) (NewLispLexer (stringReader '' (''))
     = Next (lispFunc noTable noTable)
         ((NewLispLexer \<lparr>pending = [Rune 40 1], lastRune = Some (32, 1)\<rparr>)\<lparr>absCol := 1\<rparr>)
   \<and> Next (lispFunc noTable noTable) (NewLispLexer (stringReader '' (''))
     = Some (Inr (\<lparr>TokenType = OpenParen, Val = ascii ''('', Row = 1, Col = 2, TokErr = None\<rparr>,
          \<lparr>rdr = \<lparr>pending = [], lastRune = Some (40, 1)\<rparr>, outbuf = [], ch = [],
           state = Some LexWhitespace, row = -1, col = -1, absRow = 1, absCol = 2\<rparr>))"
proof -
  let ?run = "lispFunc noTable noTable"
  let ?q = "(NewLispLexer (stringReader ''a''))\<lparr>ch := [errToken EOF]\<rparr>"
  let ?l = "NewLispLexer (stringReader '' ('')"
  let ?l1 = "(NewLispLexer \<lparr>pending = [Rune 40 1], lastRune = Some (32, 1)\<rparr>)\<lparr>absCol := 1\<rparr>"
  let ?t = "\<lparr>TokenType = OpenParen, Val = ascii ''('', Row = 1, Col = 2, TokErr = None\<rparr>"
  let ?l2 = "\<lparr>rdr = \<lparr>pending = [], lastRune = Some (40, 1)\<rparr>, outbuf = [], ch = [?t],
           state = Some LexWhitespace, row = -1, col = -1, absRow = 1, absCol = 2\<rparr>"
  have q: "ch ?q = errToken EOF # []" by simp
  have e: "ch ?l = [] \<and> state ?l = Some LexWhitespace \<and>
      ?run LexWhitespace ?l = Inr (Some LexWhitespace, ?l1)"
    by (simp add: engine_defs grammar_defs)
  have i: "invoke ?run 2 ?l = Some ?l2 \<and> ch ?l2 = ?t # []"
    by (simp add: engine_defs grammar_defs eval_nat_numeral)
  from q Next_loop [of ?q "errToken EOF" "[]" ?run]
  have 1: "Next ?run ?q = Some (Inr (errToken EOF, ?q\<lparr>ch := []\<rparr>))" by blast
  from e Next_loop [of ?l _ _ ?run LexWhitespace "Some LexWhitespace" ?l1]
  have 2: "Next ?run ?l = Next ?run (?l1\<lparr>state := Some LexWhitespace\<rparr>)" by blast
  from i Next_loop [of ?l _ _ ?run _ _ _ 2 ?l2 ?t "[]"]
  have 3: "Next ?run ?l = Some (Inr (?t, ?l2\<lparr>ch := []\<rparr>))" by blast
  from 1 2 3 show ?thesis by (simp add: grammar_defs)
qed

text \<open>
  C9. The example grammar on the input \<open>(a b)\<close>: five calls of \<open>Next\<close> return
  OpenParen \<open>(\<close>, AlphaNum \<open>a\<close>, AlphaNum \<open>b\<close>, CloseParen \<open>)\<close> and then the EOF error
  token, whatever the Unicode tables say above Latin-1. The lexer is left with a nil
  \<open>state\<close> and an empty channel.
\<close>

theorem lex_paren_a_b:
  "NextN (lispFunc L N) 5 (NewLispLexer (stringReader ''(a b)'')) =
     Some ([\<lparr>TokenType = OpenParen, Val = ascii ''('', Row = 1, Col = 1, TokErr = None\<rparr>,
            \<lparr>TokenType = AlphaNum, Val = ascii ''a'', Row = 1, Col = 2, TokErr = None\<rparr>,
            \<lparr>TokenType = AlphaNum, Val = ascii ''b'', Row = 1, Col = 4, TokErr = None\<rparr>,
            \<lparr>TokenType = CloseParen, Val = ascii '')'', Row = 1, Col = 5, TokErr = None\<rparr>,
            \<lparr>TokenType = Err, Val = [], Row = 0, Col = 0, TokErr = Some EOF\<rparr>],
           Inr \<lparr>rdr = \<lparr>pending = [], lastRune = None\<rparr>, outbuf = [], ch = [],
                state = None, row = -1, col = -1, absRow = 1, absCol = 5\<rparr>)"
  by (simp add: Next.simps engine_defs grammar_defs eval_nat_numeral)

subsection \<open>The absolute position\<close>

lemma ReadRune_ok_position:
  "ReadRune l = Inr ((c, None), l') \<Longrightarrow>
     (if c = 10 then absRow l' = absRow l + 1 \<and> absCol l' = 0
      else absRow l' = absRow l \<and> absCol l' = absCol l + 1)"
  by (auto simp: engine_defs split: engine_splits)

lemma ReadRune_fail_position:
  "ReadRune l = Inr ((c, Some e), l') \<Longrightarrow> absRow l' = absRow l \<and> absCol l' = absCol l"
  by (auto simp: engine_defs split: engine_splits)

lemma PeekRune_position:
  "PeekRune l = Inr (res, l') \<Longrightarrow> absRow l' = absRow l \<and> absCol l' = absCol l"
  by (auto simp: engine_defs split: engine_splits)

lemma BufferRune_position:
  "absRow (BufferRune c l) = absRow l \<and> absCol (BufferRune c l) = absCol l"
  by (simp add: BufferRune_def Let_def)

lemma Emit_position:
  "Emit t l = Inr l' \<Longrightarrow> absRow l' = absRow l \<and> absCol l' = absCol l"
  by (auto simp: engine_defs split: engine_splits)

lemma EmitErr_position:
  "EmitErr e l = Inr l' \<Longrightarrow> absRow l' = absRow l \<and> absCol l' = absCol l"
  by (auto simp: engine_defs split: engine_splits)

text \<open>Every call other than a \<open>ReadRune\<close> that returns a rune leaves the position alone.\<close>

lemma perform1_other_position:
  assumes "perform1 a l = Inr l'"
    and "a = CallReadRune \<Longrightarrow> \<exists>c e. ReadRune l = Inr ((c, Some e), l')"
  shows "absRow l' = absRow l \<and> absCol l' = absCol l"
proof (cases a)
  case CallReadRune
  with assms(2) obtain c e where "ReadRune l = Inr ((c, Some e), l')" by blast
  then show ?thesis by (rule ReadRune_fail_position)
next
  case CallPeekRune
  with assms(1) PeekRune_position show ?thesis by (fastforce split: sum.splits)
next
  case (CallBufferRune c)
  with assms(1) BufferRune_position [of c l] show ?thesis by auto
next
  case (CallEmit t)
  with assms(1) Emit_position [of t l l'] show ?thesis by simp
next
  case (CallEmitErr e)
  with assms(1) EmitErr_position [of e l l'] show ?thesis by simp
next
  case Receive
  with assms(1) show ?thesis by (auto split: list.splits)
qed

lemma perform1_step:
  assumes "perform1 a l = Inr l'"
  shows "(absRow l' = absRow l \<and> absCol l' = absCol l)
     \<or> (absRow l' = absRow l + 1 \<and> absCol l' = 0)
     \<or> (absRow l' = absRow l \<and> absCol l' = absCol l + 1)"
proof (cases "\<exists>c. a = CallReadRune \<and> ReadRune l = Inr ((c, None), l')")
  case True
  then obtain c where "ReadRune l = Inr ((c, None), l')" by blast
  from ReadRune_ok_position [OF this] show ?thesis by (auto split: if_splits)
next
  case False
  have "a = CallReadRune \<Longrightarrow> \<exists>c e. ReadRune l = Inr ((c, Some e), l')"
  proof -
    assume a: "a = CallReadRune"
    with assms obtain c err where r: "ReadRune l = Inr ((c, err), l')"
      by (auto split: sum.splits)
    with a False obtain e where "err = Some e" by (cases err) auto
    with r show ?thesis by blast
  qed
  from perform1_other_position [OF assms this] show ?thesis by simp
qed

lemma perform_advanced: "perform acts l = Inr l' \<Longrightarrow> advanced l l'"
proof (induction acts arbitrary: l)
  case Nil
  then show ?case by (simp add: advanced_def)
next
  case (Cons a acts)
  then obtain l1 where s: "perform1 a l = Inr l1" and r: "perform acts l1 = Inr l'"
    by (auto split: sum.splits)
  from perform1_step [OF s] Cons.IH [OF r] show ?case
    by (auto simp: advanced_def)
qed

text \<open>
  Each call moves a counter by at most one, so after \<open>n\<close> calls the counters are at most
  \<open>n\<close> above where they started.
\<close>

lemma perform_counters_bounded:
  "perform acts l = Inr l' \<Longrightarrow>
     absRow l' \<le> absRow l + int (length acts) \<and>
     (0 \<le> absCol l \<longrightarrow> 0 \<le> absCol l' \<and> absCol l' \<le> absCol l + int (length acts))"
proof (induction acts arbitrary: l)
  case Nil
  then show ?case by simp
next
  case (Cons a acts)
  then obtain l1 where s: "perform1 a l = Inr l1" and r: "perform acts l1 = Inr l'"
    by (auto split: sum.splits)
  from perform1_step [OF s] Cons.IH [OF r] show ?case
    by auto
qed

text \<open>In every state reached from \<open>NewLexer\<close>, the row is at least 1 and the column at least 0.\<close>

lemma perform_reachable_position:
  assumes "perform acts (NewLexer br f) = Inr l"
  shows "1 \<le> absRow l \<and> 0 \<le> absCol l"
  using perform_advanced [OF assms] perform_counters_bounded [OF assms]
  by (auto simp: advanced_def NewLexer_def)



subsection \<open>The token buffer\<close>







lemma fold_BufferRune_outbuf:
  "\<forall>c \<in> set cs. ValidRune c \<Longrightarrow>
     outbuf (fold BufferRune cs l) = outbuf l @ cs \<and> ch (fold BufferRune cs l) = ch l"
proof (induction cs arbitrary: l)
  case Nil
  then show ?case by simp
next
  case (Cons c cs)
  have "outbuf (BufferRune c l) = outbuf l @ [c]" "ch (BufferRune c l) = ch l"
    using Cons.prems by (simp_all add: BufferRune_def WriteRune_def Let_def)
  with Cons show ?case by simp
qed

text \<open>
  C6. On a lexer with an empty buffer and room in the channel, \<open>BufferRune\<close> on the
  characters \<open>c1..cn\<close> (Unicode scalar values) in turn and then \<open>Emit t\<close> sends one token of
  type \<open>t\<close> whose text is \<open>c1..cn\<close>; afterwards the buffer is empty and the start position
  is reset to \<open>-1, -1\<close>, so the next \<open>BufferRune\<close> records the absolute position of that
  moment.
\<close>

theorem BufferRune_Emit_roundtrip:
  assumes "outbuf l = []" and "ch l = []" and "\<forall>c \<in> set cs. ValidRune c"
  shows "\<exists>l'. Emit t (fold BufferRune cs l) = Inr l' \<and>
     (\<exists>R C. ch l' = [\<lparr>TokenType = t, Val = cs, Row = R, Col = C, TokErr = None\<rparr>]) \<and>
     outbuf l' = [] \<and> row l' = -1 \<and> col l' = -1 \<and>
     (\<forall>c. row (BufferRune c l') = absRow l' \<and> col (BufferRune c l') = absCol l')"
proof -
  let ?l1 = "fold BufferRune cs l"
  from fold_BufferRune_outbuf [OF assms(3), of l] assms(1,2)
  have f: "outbuf ?l1 = cs" "ch ?l1 = []" by simp_all
  then show ?thesis
    by (simp add: Emit_def send_def BufferRune_def Let_def)
qed

theorem BufferRune_Emit_roundtrip_witness:
  "\<exists>l'. Emit AlphaNum (fold BufferRune (ascii ''ab'') (NewLexer (stringReader []) ())) = Inr l' \<and>
     (\<exists>R C. ch l' = [\<lparr>TokenType = AlphaNum, Val = ascii ''ab'', Row = R, Col = C, TokErr = None\<rparr>]) \<and>
     outbuf l' = [] \<and> row l' = -1 \<and> col l' = -1 \<and>
     (\<forall>c. row (BufferRune c l') = absRow l' \<and> col (BufferRune c l') = absCol l')"
proof -
  let ?l = "NewLexer (stringReader []) () :: unit Lexer"
  have h1: "outbuf ?l = []" and h2: "ch ?l = []" by (simp_all add: NewLexer_def)
  have h3: "\<forall>c \<in> set (ascii ''ab''). ValidRune c"
    by (simp add: ascii_def ValidRune_def MaxRune_def)
  from BufferRune_Emit_roundtrip [OF h1 h2 h3] show ?thesis .
qed

subsection \<open>Peeking and errors\<close>

text \<open>
  C7, as the code has it. When \<open>PeekRune\<close> returns a rune, a second \<open>PeekRune\<close> returns
  the same rune and the reader has the same runes ahead as before the first; and no
  \<open>PeekRune\<close>, whether it returns a rune or an error, changes \<open>absRow\<close> or \<open>absCol\<close>.
\<close>

theorem PeekRune_twice:
  "(PeekRune l = Inr ((c, None), l1) \<longrightarrow>
      PeekRune l1 = Inr ((c, None), l1) \<and> pending (rdr l1) = pending (rdr l))
   \<and> (PeekRune l = Inr (res, l2) \<longrightarrow> absRow l2 = absRow l \<and> absCol l2 = absCol l)"
  by (auto simp: engine_defs split: engine_splits)

theorem PeekRune_twice_witness:
  "PeekRune (NewLexer (stringReader ''ab'') ()) = Inr ((97, None), NewLexer (stringReader ''ab'') ())
   \<and> pending (rdr (NewLexer (stringReader ''ab'') ())) = [Rune 97 1, Rune 98 1]
   \<and> absRow (NewLexer (stringReader ''ab'') ()) = 1
   \<and> absCol (NewLexer (stringReader ''ab'') ()) = 0"
proof -
  let ?l = "NewLexer (stringReader ''ab'') () :: unit Lexer"
  have p: "PeekRune ?l = Inr ((97, None), ?l)"
    by (simp add: engine_defs grammar_defs)
  from p PeekRune_twice [of ?l 97 ?l "(97, None)" ?l]
  show ?thesis by (simp add: grammar_defs)
qed

text \<open>
  C7, as stated, fails on a malformed unit. With the invalid byte and then \<open>a\<close> ahead, the
  first \<open>PeekRune\<close> returns the error \<open>errInvalidUTF8\<close> and leaves only \<open>a\<close> ahead: the
  byte is consumed, as \<open>ReadRune\<close> would. The second \<open>PeekRune\<close> returns \<open>a\<close>.
\<close>

theorem PeekRune_invalid_consumes:
  "PeekRune (NewLexer \<lparr>pending = [Rune ReplacementChar 1, Rune 97 1], lastRune = None\<rparr> ()) =
     Inr ((0, Some errInvalidUTF8),
       (NewLexer \<lparr>pending = [Rune 97 1], lastRune = Some (ReplacementChar, 1)\<rparr> ())
         \<lparr>ch := [errToken errInvalidUTF8]\<rparr>)
   \<and> PeekRune ((NewLexer \<lparr>pending = [Rune 97 1], lastRune = Some (ReplacementChar, 1)\<rparr> ())
         \<lparr>ch := [errToken errInvalidUTF8]\<rparr>) =
     Inr ((97, None),
       (NewLexer \<lparr>pending = [Rune 97 1], lastRune = None\<rparr> ())
         \<lparr>ch := [errToken errInvalidUTF8]\<rparr>)
   \<and> pending (rdr ((NewLexer \<lparr>pending = [Rune 97 1], lastRune = Some (ReplacementChar, 1)\<rparr> ())
         \<lparr>ch := [errToken errInvalidUTF8]\<rparr>))
     \<noteq> pending (rdr (NewLexer \<lparr>pending = [Rune ReplacementChar 1, Rune 97 1], lastRune = None\<rparr> ()))"
  by (simp add: engine_defs grammar_defs)

text \<open>
  C8. When the unit ahead is malformed (the reader returns \<open>ReplacementChar\<close> with size 1)
  and the channel has room, as it has whenever \<open>Next\<close> calls a state function, \<open>readRune\<close>
  sends exactly one token, the error token of \<open>errInvalidUTF8\<close>, and returns rune 0 with
  that error; \<open>ReadRune\<close> and \<open>PeekRune\<close> return just that. \<open>errInvalidUTF8\<close> is none of
  \<open>io.EOF\<close>, an I/O failure or the unread error.
\<close>

theorem readRune_invalid_utf8:
  assumes "pending (rdr l) = Rune ReplacementChar 1 # rest" and "ch l = []"
  shows "readRune l = Inr ((0, Some errInvalidUTF8),
        l\<lparr>rdr := \<lparr>pending = rest, lastRune = Some (ReplacementChar, 1)\<rparr>,
          ch := [errToken errInvalidUTF8]\<rparr>)
   \<and> ReadRune l = readRune l \<and> PeekRune l = readRune l
   \<and> TokenType (errToken errInvalidUTF8) = Err
   \<and> TokErr (errToken errInvalidUTF8) = Some errInvalidUTF8
   \<and> errInvalidUTF8 \<noteq> EOF \<and> errInvalidUTF8 \<noteq> IOError msg
   \<and> errInvalidUTF8 \<noteq> ErrInvalidUnreadRune"
  using assms by (simp add: engine_defs errToken_def)

theorem readRune_invalid_utf8_witness:
  "readRune (NewLexer \<lparr>pending = [Rune ReplacementChar 1, Rune 97 1], lastRune = None\<rparr> ()) =
     Inr ((0, Some errInvalidUTF8),
       (NewLexer \<lparr>pending = [Rune 97 1], lastRune = Some (ReplacementChar, 1)\<rparr> ())
         \<lparr>ch := [errToken errInvalidUTF8]\<rparr>)
   \<and> ReadRune (NewLexer \<lparr>pending = [Rune ReplacementChar 1, Rune 97 1], lastRune = None\<rparr> ()) =
     Inr ((0, Some errInvalidUTF8),
       (NewLexer \<lparr>pending = [Rune 97 1], lastRune = Some (ReplacementChar, 1)\<rparr> ())
         \<lparr>ch := [errToken errInvalidUTF8]\<rparr>)"
proof -
  let ?l = "NewLexer \<lparr>pending = [Rune ReplacementChar 1, Rune 97 1], lastRune = None\<rparr> () :: unit Lexer"
  have h1: "pending (rdr ?l) = Rune ReplacementChar 1 # [Rune 97 1]" and h2: "ch ?l = []"
    by (simp_all add: NewLexer_def)
  from readRune_invalid_utf8 [OF h1 h2] show ?thesis by (simp add: NewLexer_def)
qed

text \<open>
  C10. An \<open>EmitErr\<close> that returns has changed nothing but the channel, which has gained
  the error token: the reader, the buffer, the start position, the absolute position and
  \<open>state\<close> are as before.
\<close>

theorem EmitErr_frame:
  assumes "EmitErr err l = Inr l'"
  shows "l' = l\<lparr>ch := ch l @ [errToken err]\<rparr> \<and>
     rdr l' = rdr l \<and> outbuf l' = outbuf l \<and> row l' = row l \<and> col l' = col l \<and>
     absRow l' = absRow l \<and> absCol l' = absCol l \<and> state l' = state l \<and>
     ch l' = ch l @ [errToken err]"
  using assms by (auto simp: EmitErr_def send_def errToken_def split: if_splits)

theorem EmitErr_frame_witness:
  "EmitErr (IOError ''unexpected character'')
       (BufferRune 97 ((NewLexer (stringReader ''b'') ())\<lparr>absCol := 1\<rparr>)) =
     Inr ((BufferRune 97 ((NewLexer (stringReader ''b'') ())\<lparr>absCol := 1\<rparr>))
            \<lparr>ch := [errToken (IOError ''unexpected character'')]\<rparr>)
   \<and> outbuf ((BufferRune 97 ((NewLexer (stringReader ''b'') ())\<lparr>absCol := 1\<rparr>))
            \<lparr>ch := [errToken (IOError ''unexpected character'')]\<rparr>) = [97]"
proof -
  let ?l = "BufferRune 97 ((NewLexer (stringReader ''b'') ())\<lparr>absCol := 1\<rparr>) :: unit Lexer"
  let ?e = "IOError ''unexpected character''"
  have h: "EmitErr ?e ?l = Inr (?l\<lparr>ch := [errToken ?e]\<rparr>)"
    by (simp add: engine_defs grammar_defs)
  from EmitErr_frame [OF h] h show ?thesis
    by (simp add: engine_defs grammar_defs)
qed

end
